theory Spec2Isabelle
  imports Main
begin

section \<open>Data model\<close>

text \<open>
  A pointer to an asset (\<open>MaterialBase*\<close>, \<open>MaterialInstance*\<close>) is \<open>nat option\<close>:
  \<open>None\<close> is \<open>nullptr\<close>, \<open>Some a\<close> points at address \<open>a\<close> of the content store.
  The \<open>int32\<close> values of the file (\<open>entryIndex\<close>, \<open>_sceneRenderingKey\<close>) are \<open>int\<close>:
  the file only compares them (with \<open>-1\<close>, \<open>0\<close> and \<open>Count()\<close>), it never computes with
  them, so no wrap-around can occur.
\<close>

text \<open>
  \<open>ModelInstanceEntry\<close> is declared in a header that is not part of the source file. The
  only field the file names is \<open>Material\<close>; the remaining fields are the extension part
  of the record. \<open>Entries[i] != value[i]\<close> is value equality of the whole entry.
\<close>

record ModelInstanceEntry =
  Material :: "nat option"

text \<open>
  Modelled from the spec: the asset system (\<open>MaterialBase\<close>, \<open>MaterialInstance\<close>) is not in
  the source file. An asset is what the two calls of the file need: the answer of its
  blocking \<open>WaitForLoaded()\<close> (true when loading failed: the file goes on only when
  \<open>!material->WaitForLoaded()\<close> holds) and, for a virtual instance, the material it was
  created from. The content store is the list of all assets; an address is a position.
\<close>

record Asset =
  LoadFailed :: bool
  BaseMaterial :: "nat option"

text \<open>Calls made to the two collaborators, the scene registry and the base \<open>Actor\<close>.\<close>

datatype event =
    AddActorCall int
  | UpdateActorCall int
  | RemoveActorCall int
  | BaseOnEnableCall
  | BaseOnDisableCall

text \<open>
  The actor (\<open>Entries\<close>, \<open>sceneRenderingKey\<close>) together with what surrounds it: the scene
  registry, the content store, the calls made so far (oldest first) and the number of
  failed \<open>CHECK\<close>s reported.
\<close>

record 'x world =
  Entries :: "'x ModelInstanceEntry_scheme list"
  sceneRenderingKey :: int
  scene :: nat
  content :: "Asset list"
  calls :: "event list"
  checkFailed :: nat

datatype error = ArrayIndexOutOfRange | InvalidPointer

section \<open>Collaborators\<close>

subsection \<open>Array\<close>

definition Count :: "'a list \<Rightarrow> int" where
  "Count xs = int (length xs)"

text \<open>
  \<open>Array\<close> is declared outside the source file. \<open>Resize(n)\<close> keeps the first \<open>n\<close>
  elements and fills a longer array up with default-constructed elements; the
  default-constructed \<open>ModelInstanceEntry\<close> is the parameter \<open>dflt\<close>.
\<close>

definition Resize :: "'a \<Rightarrow> 'a list \<Rightarrow> nat \<Rightarrow> 'a list" where
  "Resize dflt xs n = take n xs @ replicate (n - length xs) dflt"

text \<open>
  \<open>Entries[i]\<close> where the function itself has not checked \<open>i\<close>. What an access outside
  the array does is up to \<open>Array::operator[]\<close>, which is not in the source file (in C++ it is
  undefined unless the container traps it): the model stops there with
  \<open>ArrayIndexOutOfRange\<close> and gives no resulting state.
\<close>

definition Array_at :: "'a list \<Rightarrow> int \<Rightarrow> error + 'a" where
  "Array_at xs i =
     (if 0 \<le> i \<and> i < Count xs then Inr (xs ! nat i) else Inl ArrayIndexOutOfRange)"

subsection \<open>Scene registry\<close>

text \<open>
  Modelled from the spec: \<open>SceneRendering\<close> is not in the source file. The registry
  allocates the key on \<open>AddActor\<close> and hands it back through the reference argument;
  \<open>RemoveActor\<close> clears the key to the sentinel \<open>-1\<close>; \<open>UpdateActor\<close> takes the key by
  value. The registry's state is the number of keys handed out so far.
\<close>

definition AddActor :: "nat \<Rightarrow> int \<Rightarrow> nat \<times> int" where
  "AddActor s key = (s + 1, int s)"

definition UpdateActor :: "nat \<Rightarrow> int \<Rightarrow> nat" where
  "UpdateActor s key = s"

definition RemoveActor :: "nat \<Rightarrow> int \<Rightarrow> nat \<times> int" where
  "RemoveActor s key = (s, - 1)"

subsection \<open>Assets\<close>

text \<open>
  Modelled from the spec: \<open>WaitForLoaded\<close> blocks until the asset is loaded or has failed
  and reports failure as true; \<open>CreateVirtualInstance\<close> makes a new asset, a private
  instance of the material it is called on, and returns its address. Calling either
  through a pointer to no asset of the store is an error of the model.
\<close>

definition WaitForLoaded :: "Asset list \<Rightarrow> nat \<Rightarrow> error + bool" where
  "WaitForLoaded c a = (if a < length c then Inr (LoadFailed (c ! a)) else Inl InvalidPointer)"

definition CreateVirtualInstance :: "Asset list \<Rightarrow> nat \<Rightarrow> Asset list \<times> nat option" where
  "CreateVirtualInstance c a =
     (c @ [\<lparr>LoadFailed = False, BaseMaterial = Some a\<rparr>], Some (length c))"

subsection \<open>Checks and base class\<close>

text \<open>
  Modelled from the spec: the macros \<open>CHECK\<close> and \<open>CHECK_RETURN\<close> are not in the source
  file. A failed check is reported and the function returns at once (with the value given
  to \<open>CHECK_RETURN\<close>); nothing after the check runs.
\<close>

definition CheckFailed :: "'x world \<Rightarrow> 'x world" where
  "CheckFailed w = w\<lparr>checkFailed := checkFailed w + 1\<rparr>"

text \<open>
  \<open>GetSceneRendering()->UpdateActor(this, _sceneRenderingKey)\<close>, the call shared by the
  four notifying operations.
\<close>

definition SceneUpdateActor :: "'x world \<Rightarrow> 'x world" where
  "SceneUpdateActor w =
     w\<lparr>scene := UpdateActor (scene w) (sceneRenderingKey w),
       calls := calls w @ [UpdateActorCall (sceneRenderingKey w)]\<rparr>"

text \<open>
  \<open>Actor::OnEnable\<close> and \<open>Actor::OnDisable\<close> of the base class are not in the source
  file; they do not touch the fields of this class and are recorded as calls.
\<close>

definition Actor_OnEnable :: "'x world \<Rightarrow> 'x world" where
  "Actor_OnEnable w = w\<lparr>calls := calls w @ [BaseOnEnableCall]\<rparr>"

definition Actor_OnDisable :: "'x world \<Rightarrow> 'x world" where
  "Actor_OnDisable w = w\<lparr>calls := calls w @ [BaseOnDisableCall]\<rparr>"

section \<open>ModelInstanceActor\<close>

text \<open>
  The loop of \<open>SetEntries\<close>, from index \<open>i\<close>: \<open>es\<close> is \<open>Entries\<close> (already resized to
  the length of \<open>v\<close>, so every access is in range), \<open>v\<close> is \<open>value\<close>. The index runs
  from 0 to \<open>value.Count() - 1\<close> and is a natural number here.
\<close>

function SetEntries_loop :: "'a list \<Rightarrow> 'a list \<Rightarrow> nat \<Rightarrow> bool \<Rightarrow> 'a list \<times> bool" where
  "SetEntries_loop es v i anyChanged =
     (if i < length v
      then SetEntries_loop (es[i := v ! i]) v (i + 1) (anyChanged \<or> es ! i \<noteq> v ! i)
      else (es, anyChanged))"
  by pat_completeness auto
termination
  by (relation "measure (\<lambda>(es, v, i, c). length v - i)") auto

declare SetEntries_loop.simps [simp del]

definition SetEntries ::
  "'x ModelInstanceEntry_scheme \<Rightarrow> 'x world \<Rightarrow> 'x ModelInstanceEntry_scheme list \<Rightarrow> 'x world" where
  "SetEntries dflt w v =
     (case SetEntries_loop (Resize dflt (Entries w) (length v)) v 0 False of
        (es, anyChanged) \<Rightarrow>
          let w1 = w\<lparr>Entries := es\<rparr>
          in if anyChanged \<and> sceneRenderingKey w1 \<noteq> - 1 then SceneUpdateActor w1 else w1)"

definition SetMaterial :: "'x world \<Rightarrow> int \<Rightarrow> nat option \<Rightarrow> 'x world" where
  "SetMaterial w entryIndex material =
     (if \<not> (entryIndex \<ge> 0 \<and> entryIndex < Count (Entries w)) then CheckFailed w
      else if Material (Entries w ! nat entryIndex) = material then w
      else
        let w1 = w\<lparr>Entries := (Entries w)
                    [nat entryIndex := (Entries w ! nat entryIndex)\<lparr>Material := material\<rparr>]\<rparr>
        in if sceneRenderingKey w1 \<noteq> - 1 then SceneUpdateActor w1 else w1)"

definition CreateAndSetVirtualMaterialInstance ::
  "'x world \<Rightarrow> int \<Rightarrow> error + (nat option \<times> 'x world)" where
  "CreateAndSetVirtualMaterialInstance w entryIndex =
     (case Array_at (Entries w) entryIndex of
        Inl e \<Rightarrow> Inl e
      | Inr entry \<Rightarrow>
          (case Material entry of
             None \<Rightarrow> Inr (None, CheckFailed w)
           | Some material \<Rightarrow>
               (case WaitForLoaded (content w) material of
                  Inl e \<Rightarrow> Inl e
                | Inr failed \<Rightarrow>
                    if failed then Inr (None, CheckFailed w)
                    else
                      (case CreateVirtualInstance (content w) material of
                         (c, result) \<Rightarrow>
                           let w1 = w\<lparr>content := c,
                                      Entries := (Entries w)
                                        [nat entryIndex := entry\<lparr>Material := result\<rparr>]\<rparr>
                           in Inr (result,
                                if sceneRenderingKey w1 \<noteq> - 1 then SceneUpdateActor w1
                                else w1)))))"

definition OnLayerChanged :: "'x world \<Rightarrow> 'x world" where
  "OnLayerChanged w = (if sceneRenderingKey w \<noteq> - 1 then SceneUpdateActor w else w)"

definition OnEnable :: "'x world \<Rightarrow> 'x world" where
  "OnEnable w =
     (case AddActor (scene w) (sceneRenderingKey w) of
        (s, key) \<Rightarrow>
          Actor_OnEnable
            (w\<lparr>scene := s, sceneRenderingKey := key, calls := calls w @ [AddActorCall key]\<rparr>))"

definition OnDisable :: "'x world \<Rightarrow> 'x world" where
  "OnDisable w =
     (let w1 = Actor_OnDisable w in
      case RemoveActor (scene w1) (sceneRenderingKey w1) of
        (s, key) \<Rightarrow>
          w1\<lparr>scene := s, sceneRenderingKey := key,
             calls := calls w1 @ [RemoveActorCall (sceneRenderingKey w1)]\<rparr>)"

text \<open>How often the registry's three operations occur in a list of calls.\<close>

fun isAddActor :: "event \<Rightarrow> bool" where
  "isAddActor (AddActorCall k) = True"
| "isAddActor e = False"

fun isUpdateActor :: "event \<Rightarrow> bool" where
  "isUpdateActor (UpdateActorCall k) = True"
| "isUpdateActor e = False"

fun isRemoveActor :: "event \<Rightarrow> bool" where
  "isRemoveActor (RemoveActorCall k) = True"
| "isRemoveActor e = False"

section \<open>Example worlds\<close>

text \<open>
  Asset 0 loads, asset 1 fails to load. \<open>demoWorld key\<close> has three entries: the first
  two use these assets, the third has no material.
\<close>

definition demoContent :: "Asset list" where
  "demoContent = [\<lparr>LoadFailed = False, BaseMaterial = None\<rparr>,
                  \<lparr>LoadFailed = True, BaseMaterial = None\<rparr>]"

definition demoWorld :: "int \<Rightarrow> unit world" where
  "demoWorld key =
     \<lparr>Entries = [\<lparr>Material = Some 0\<rparr>, \<lparr>Material = Some 1\<rparr>, \<lparr>Material = None\<rparr>],
      sceneRenderingKey = key, scene = 1, content = demoContent,
      calls = [], checkFailed = 0\<rparr>"

definition scenarioWorld :: "unit world" where
  "scenarioWorld =
     \<lparr>Entries = [\<lparr>Material = Some 0\<rparr>, \<lparr>Material = Some 1\<rparr>],
      sceneRenderingKey = 0, scene = 1, content = demoContent,
      calls = [], checkFailed = 0\<rparr>"

section \<open>The loop of SetEntries\<close>

lemma SetEntries_loop_fst:
  "length es = length v \<Longrightarrow> take i es = take i v \<Longrightarrow> fst (SetEntries_loop es v i c) = v"
proof (induction es v i c rule: SetEntries_loop.induct)
  case (1 es v i c)
  show ?case
  proof (cases "i < length v")
    case True
    have "take (i + 1) (es[i := v ! i]) = take (i + 1) v"
      using True "1.prems" by (simp add: take_Suc_conv_app_nth)
    moreover have "length (es[i := v ! i]) = length v"
      using "1.prems" by simp
    ultimately have "fst (SetEntries_loop (es[i := v ! i]) v (i + 1) (c \<or> es ! i \<noteq> v ! i)) = v"
      using True "1.IH" by blast
    then show ?thesis
      using True by (subst SetEntries_loop.simps) simp
  next
    case False
    then have "es = v"
      using "1.prems" by simp
    then show ?thesis
      using False by (subst SetEntries_loop.simps) simp
  qed
qed

lemma SetEntries_loop_snd:
  "length es = length v \<Longrightarrow> snd (SetEntries_loop es v i c) = (c \<or> drop i es \<noteq> drop i v)"
proof (induction es v i c rule: SetEntries_loop.induct)
  case (1 es v i c)
  show ?case
  proof (cases "i < length v")
    case True
    have len: "length (es[i := v ! i]) = length v"
      using "1.prems" by simp
    have ih: "snd (SetEntries_loop (es[i := v ! i]) v (i + 1) (c \<or> es ! i \<noteq> v ! i))
              = ((c \<or> es ! i \<noteq> v ! i) \<or> drop (i + 1) (es[i := v ! i]) \<noteq> drop (i + 1) v)"
      using True len "1.IH" by blast
    have "drop i es = es ! i # drop (i + 1) es" "drop i v = v ! i # drop (i + 1) v"
      using True "1.prems" by (simp_all add: Cons_nth_drop_Suc)
    then have "(drop i es \<noteq> drop i v) = (es ! i \<noteq> v ! i \<or> drop (i + 1) es \<noteq> drop (i + 1) v)"
      by simp
    moreover have "drop (i + 1) (es[i := v ! i]) = drop (i + 1) es"
      by simp
    ultimately have "((c \<or> es ! i \<noteq> v ! i) \<or> drop (i + 1) (es[i := v ! i]) \<noteq> drop (i + 1) v)
                     = (c \<or> drop i es \<noteq> drop i v)"
      by auto
    with ih show ?thesis
      using True by (subst SetEntries_loop.simps) simp
  next
    case False
    then show ?thesis
      using "1.prems" by (subst SetEntries_loop.simps) simp
  qed
qed

lemma SetEntries_loop_eq:
  assumes "length es = length v"
  shows "SetEntries_loop es v 0 False = (v, es \<noteq> v)"
  using SetEntries_loop_fst [of es v 0 False] SetEntries_loop_snd [of es v 0 False] assms
  by (simp add: prod_eq_iff)

lemma length_Resize: "length (Resize d xs n) = n"
  by (simp add: Resize_def)

section \<open>SetEntries\<close>

lemma differs_iff_nth:
  "length xs = length ys \<Longrightarrow> (xs \<noteq> ys) = (\<exists>i<length ys. xs ! i \<noteq> ys ! i)"
  by (auto simp: list_eq_iff_nth_eq)

lemma SetEntries_eq:
  "SetEntries dflt w v =
     (if Resize dflt (Entries w) (length v) \<noteq> v \<and> sceneRenderingKey w \<noteq> - 1
      then SceneUpdateActor (w\<lparr>Entries := v\<rparr>) else w\<lparr>Entries := v\<rparr>)"
  by (simp add: SetEntries_def SetEntries_loop_eq length_Resize)

lemma Entries_SetEntries: "Entries (SetEntries dflt w v) = v"
  by (simp add: SetEntries_eq SceneUpdateActor_def)

lemma key_SetEntries: "sceneRenderingKey (SetEntries dflt w v) = sceneRenderingKey w"
  by (simp add: SetEntries_eq SceneUpdateActor_def)

lemma calls_SetEntries:
  "calls (SetEntries dflt w v) =
     calls w @ (if Resize dflt (Entries w) (length v) \<noteq> v \<and> sceneRenderingKey w \<noteq> - 1
                then [UpdateActorCall (sceneRenderingKey w)] else [])"
  by (simp add: SetEntries_eq SceneUpdateActor_def)

lemma Resize_same_length: "length xs = n \<Longrightarrow> Resize dflt xs n = xs"
  by (simp add: Resize_def)

lemma Resize_prefix: "Resize dflt (v @ rest) (length v) = v"
  by (simp add: Resize_def)

lemma Resize_grow: "Resize dflt xs (length xs + n) = xs @ replicate n dflt"
  by (simp add: Resize_def)

text \<open>
  Claim C1. \<open>SetEntries\<close> leaves \<open>Entries\<close> equal to the new list, whatever the old one
  was. It calls the registry's \<open>UpdateActor\<close> once when the actor is registered and some
  element of the new list differs from the element at the same index of the resized old
  list, and makes no call otherwise. In the scenario, with \<open>Entries = [A, B]\<close>, \<open>B \<noteq> C\<close>
  and a registered actor, \<open>SetEntries [A, C]\<close> makes one update and gives \<open>[A, C]\<close>;
  repeating it makes none.
\<close>

theorem SetEntries_replaces_and_updates_once:
  "Entries (SetEntries dflt w newEntries) = newEntries \<and>
   sceneRenderingKey (SetEntries dflt w newEntries) = sceneRenderingKey w \<and>
   calls (SetEntries dflt w newEntries) =
     calls w @
     (if (\<exists>i<length newEntries.
            Resize dflt (Entries w) (length newEntries) ! i \<noteq> newEntries ! i) \<and>
         sceneRenderingKey w \<noteq> - 1
      then [UpdateActorCall (sceneRenderingKey w)] else []) \<and>
   (Entries w = [A, B] \<and> B \<noteq> C \<and> sceneRenderingKey w \<noteq> - 1 \<longrightarrow>
      Entries (SetEntries dflt w [A, C]) = [A, C] \<and>
      calls (SetEntries dflt w [A, C]) = calls w @ [UpdateActorCall (sceneRenderingKey w)] \<and>
      Entries (SetEntries dflt (SetEntries dflt w [A, C]) [A, C]) = [A, C] \<and>
      calls (SetEntries dflt (SetEntries dflt w [A, C]) [A, C]) =
        calls (SetEntries dflt w [A, C]))"
proof -
  have len: "length (Resize dflt (Entries w) (length newEntries)) = length newEntries"
    by (rule length_Resize)
  have general: "calls (SetEntries dflt w newEntries) =
     calls w @
     (if (\<exists>i<length newEntries.
            Resize dflt (Entries w) (length newEntries) ! i \<noteq> newEntries ! i) \<and>
         sceneRenderingKey w \<noteq> - 1
      then [UpdateActorCall (sceneRenderingKey w)] else [])"
    unfolding calls_SetEntries differs_iff_nth [OF len] ..
  have scenario: "calls (SetEntries dflt w [A, C]) = calls w @ [UpdateActorCall (sceneRenderingKey w)]"
    if "Entries w = [A, B]" "B \<noteq> C" "sceneRenderingKey w \<noteq> - 1"
    using that by (simp add: calls_SetEntries Resize_same_length)
  have again: "calls (SetEntries dflt (SetEntries dflt w [A, C]) [A, C]) =
        calls (SetEntries dflt w [A, C])"
    by (simp add: calls_SetEntries [of dflt "SetEntries dflt w [A, C]"] Entries_SetEntries
        Resize_same_length)
  show ?thesis
    using general scenario again by (simp add: Entries_SetEntries key_SetEntries)
qed

theorem SetEntries_replaces_and_updates_once_witness:
  "Entries (SetEntries \<lparr>Material = None\<rparr> scenarioWorld
      [\<lparr>Material = Some 0\<rparr>, \<lparr>Material = None\<rparr>]) =
     [\<lparr>Material = Some 0\<rparr>, \<lparr>Material = None\<rparr>] \<and>
   calls (SetEntries \<lparr>Material = None\<rparr> scenarioWorld
      [\<lparr>Material = Some 0\<rparr>, \<lparr>Material = None\<rparr>]) = [UpdateActorCall 0] \<and>
   calls (SetEntries \<lparr>Material = None\<rparr>
      (SetEntries \<lparr>Material = None\<rparr> scenarioWorld
         [\<lparr>Material = Some 0\<rparr>, \<lparr>Material = None\<rparr>])
      [\<lparr>Material = Some 0\<rparr>, \<lparr>Material = None\<rparr>]) = [UpdateActorCall 0]"
proof -
  have hyp: "Entries scenarioWorld = [\<lparr>Material = Some 0\<rparr>, \<lparr>Material = Some 1\<rparr>] \<and>
      \<lparr>Material = Some (1::nat)\<rparr> \<noteq> \<lparr>Material = None\<rparr> \<and>
      sceneRenderingKey scenarioWorld \<noteq> - 1"
    by (simp add: scenarioWorld_def)
  from SetEntries_replaces_and_updates_once
    [of "\<lparr>Material = None\<rparr>" scenarioWorld "[]"
        "\<lparr>Material = Some 0\<rparr>" "\<lparr>Material = Some 1\<rparr>" "\<lparr>Material = None\<rparr>",
     THEN conjunct2, THEN conjunct2, THEN conjunct2, THEN mp, OF hyp]
  show ?thesis
    by (simp add: scenarioWorld_def)
qed

lemma SetMaterial_out_of_range:
  "\<not> (0 \<le> i \<and> i < Count (Entries w)) \<Longrightarrow> SetMaterial w i m = CheckFailed w"
  by (simp add: SetMaterial_def)

text \<open>
  Claim C2. \<open>SetMaterial\<close> checks its index first: outside the range the check fails and
  nothing else happens. \<open>CreateAndSetVirtualMaterialInstance\<close> has no such check: with three
  entries, index 3 (and index -1) reaches the element access \<open>Entries[entryIndex]\<close> outside
  the array, where \<open>SetMaterial\<close> stops at its check.
\<close>

theorem CreateAndSetVirtualMaterialInstance_index_unchecked:
  "CreateAndSetVirtualMaterialInstance (demoWorld 0) 3 = Inl ArrayIndexOutOfRange \<and>
   CreateAndSetVirtualMaterialInstance (demoWorld 0) (- 1) = Inl ArrayIndexOutOfRange \<and>
   SetMaterial (demoWorld 0) 3 None = CheckFailed (demoWorld 0)"
  by (simp add: CreateAndSetVirtualMaterialInstance_def Array_at_def Count_def demoWorld_def
      SetMaterial_def)

lemma CreateAndSet_check_fails:
  assumes "0 \<le> i" "i < Count (Entries w)"
    and "Material (Entries w ! nat i) = None \<or>
         (\<exists>a. Material (Entries w ! nat i) = Some a \<and> WaitForLoaded (content w) a = Inr True)"
  shows "CreateAndSetVirtualMaterialInstance w i = Inr (None, CheckFailed w)"
  using assms by (auto simp: CreateAndSetVirtualMaterialInstance_def Array_at_def)

lemma CreateAndSet_succeeds:
  assumes "0 \<le> i" "i < Count (Entries w)"
    and "Material (Entries w ! nat i) = Some a" "WaitForLoaded (content w) a = Inr False"
  shows "CreateAndSetVirtualMaterialInstance w i =
     Inr (Some (length (content w)),
          (if sceneRenderingKey w \<noteq> - 1 then SceneUpdateActor else id)
            (w\<lparr>content := content w @ [\<lparr>LoadFailed = False, BaseMaterial = Some a\<rparr>],
               Entries := (Entries w)
                 [nat i := (Entries w ! nat i)\<lparr>Material := Some (length (content w))\<rparr>]\<rparr>))"
  using assms
  by (simp add: CreateAndSetVirtualMaterialInstance_def Array_at_def CreateVirtualInstance_def
      Let_def)

lemma CreateAndSet_cases:
  assumes "CreateAndSetVirtualMaterialInstance w i = Inr (r, w')"
  shows "0 \<le> i \<and> i < Count (Entries w) \<and>
     ((r = None \<and> w' = CheckFailed w) \<or>
      (\<exists>a. Material (Entries w ! nat i) = Some a \<and> WaitForLoaded (content w) a = Inr False))"
  using assms
  by (auto simp: CreateAndSetVirtualMaterialInstance_def Array_at_def
      split: if_splits option.splits sum.splits prod.splits)

text \<open>
  Claim C3. While the key is the sentinel -1, \<open>SetEntries\<close>, \<open>SetMaterial\<close> and
  \<open>CreateAndSetVirtualMaterialInstance\<close> make no call (the list of calls and the registry
  are as before), and the local update takes effect: \<open>Entries\<close> is the new list, the entry
  has the material given, the entry has the virtual instance returned.
\<close>

theorem unregistered_operations_make_no_registry_call:
  assumes "sceneRenderingKey w = - 1"
  shows "calls (SetEntries dflt w v) = calls w \<and> scene (SetEntries dflt w v) = scene w \<and>
     Entries (SetEntries dflt w v) = v \<and>
     calls (SetMaterial w i m) = calls w \<and> scene (SetMaterial w i m) = scene w \<and>
     (0 \<le> i \<and> i < Count (Entries w) \<longrightarrow>
        Entries (SetMaterial w i m) =
          (Entries w)[nat i := (Entries w ! nat i)\<lparr>Material := m\<rparr>]) \<and>
     (\<forall>r w'. CreateAndSetVirtualMaterialInstance w i = Inr (r, w') \<longrightarrow>
        calls w' = calls w \<and> scene w' = scene w \<and>
        (r \<noteq> None \<longrightarrow>
           Entries w' = (Entries w)[nat i := (Entries w ! nat i)\<lparr>Material := r\<rparr>]))"
proof -
  have se: "calls (SetEntries dflt w v) = calls w \<and> scene (SetEntries dflt w v) = scene w"
    using assms by (simp add: SetEntries_eq)
  have sm: "calls (SetMaterial w i m) = calls w \<and> scene (SetMaterial w i m) = scene w"
    using assms by (simp add: SetMaterial_def CheckFailed_def Let_def)
  have sm_upd: "Entries (SetMaterial w i m) =
          (Entries w)[nat i := (Entries w ! nat i)\<lparr>Material := m\<rparr>]"
    if "0 \<le> i \<and> i < Count (Entries w)"
  proof (cases "Material (Entries w ! nat i) = m")
    case True
    then have same: "(Entries w ! nat i)\<lparr>Material := m\<rparr> = Entries w ! nat i"
      by auto
    have "Entries (SetMaterial w i m) = Entries w"
      using True that by (simp add: SetMaterial_def)
    then show ?thesis
      by (simp add: same)
  next
    case False
    with that assms show ?thesis
      by (simp add: SetMaterial_def Let_def)
  qed
  have cv: "calls w' = calls w \<and> scene w' = scene w \<and>
        (r \<noteq> None \<longrightarrow>
           Entries w' = (Entries w)[nat i := (Entries w ! nat i)\<lparr>Material := r\<rparr>])"
    if run: "CreateAndSetVirtualMaterialInstance w i = Inr (r, w')" for r w'
  proof -
    from CreateAndSet_cases [OF run] have range: "0 \<le> i" "i < Count (Entries w)"
      and alt: "(r = None \<and> w' = CheckFailed w) \<or>
        (\<exists>a. Material (Entries w ! nat i) = Some a \<and> WaitForLoaded (content w) a = Inr False)"
      by auto
    from alt show ?thesis
    proof
      assume "r = None \<and> w' = CheckFailed w"
      then show ?thesis by (simp add: CheckFailed_def)
    next
      assume "\<exists>a. Material (Entries w ! nat i) = Some a \<and>
                  WaitForLoaded (content w) a = Inr False"
      then obtain a where a: "Material (Entries w ! nat i) = Some a"
        "WaitForLoaded (content w) a = Inr False" by blast
      from CreateAndSet_succeeds [OF range a] assms
      have "CreateAndSetVirtualMaterialInstance w i =
        Inr (Some (length (content w)),
          w\<lparr>content := content w @ [\<lparr>LoadFailed = False, BaseMaterial = Some a\<rparr>],
            Entries := (Entries w)
              [nat i := (Entries w ! nat i)\<lparr>Material := Some (length (content w))\<rparr>]\<rparr>)"
        by simp
      with run have r: "r = Some (length (content w))"
        and w': "w' = w\<lparr>content := content w @ [\<lparr>LoadFailed = False, BaseMaterial = Some a\<rparr>],
            Entries := (Entries w)
              [nat i := (Entries w ! nat i)\<lparr>Material := Some (length (content w))\<rparr>]\<rparr>"
        by auto
      show ?thesis
        unfolding r w' by simp
    qed
  qed
  have ent: "Entries (SetEntries dflt w v) = v"
    by (rule Entries_SetEntries)
  from se sm sm_upd cv ent show ?thesis
    by blast
qed

theorem unregistered_operations_make_no_registry_call_witness:
  "sceneRenderingKey (demoWorld (- 1)) = - 1 \<and>
   calls (SetEntries \<lparr>Material = None\<rparr> (demoWorld (- 1)) [\<lparr>Material = Some 1\<rparr>]) = [] \<and>
   Entries (SetEntries \<lparr>Material = None\<rparr> (demoWorld (- 1)) [\<lparr>Material = Some 1\<rparr>]) =
     [\<lparr>Material = Some 1\<rparr>] \<and>
   calls (SetMaterial (demoWorld (- 1)) 0 None) = [] \<and>
   Entries (SetMaterial (demoWorld (- 1)) 0 None) =
     [\<lparr>Material = None\<rparr>, \<lparr>Material = Some 1\<rparr>, \<lparr>Material = None\<rparr>] \<and>
   (\<exists>w'. CreateAndSetVirtualMaterialInstance (demoWorld (- 1)) 0 = Inr (Some 2, w') \<and>
      calls w' = [] \<and>
      Entries w' = [\<lparr>Material = Some 2\<rparr>, \<lparr>Material = Some 1\<rparr>, \<lparr>Material = None\<rparr>])"
proof -
  have key: "sceneRenderingKey (demoWorld (- 1)) = - 1"
    by (simp add: demoWorld_def)
  note t = unregistered_operations_make_no_registry_call
    [OF key, of "\<lparr>Material = None\<rparr>" "[\<lparr>Material = Some 1\<rparr>]" 0 None]
  obtain w' where run: "CreateAndSetVirtualMaterialInstance (demoWorld (- 1)) 0 = Inr (Some 2, w')"
    by (simp add: CreateAndSetVirtualMaterialInstance_def Array_at_def Count_def demoWorld_def
        WaitForLoaded_def demoContent_def CreateVirtualInstance_def Let_def)
  from t run have cv: "calls w' = calls (demoWorld (- 1)) \<and>
      Entries w' = (Entries (demoWorld (- 1)))
        [nat 0 := (Entries (demoWorld (- 1)) ! nat 0)\<lparr>Material := Some 2\<rparr>]"
    by blast
  have range: "(0::int) \<le> 0 \<and> 0 < Count (Entries (demoWorld (- 1)))"
    by (simp add: demoWorld_def Count_def)
  from t range have sm: "Entries (SetMaterial (demoWorld (- 1)) 0 None) =
      (Entries (demoWorld (- 1)))[nat 0 := (Entries (demoWorld (- 1)) ! nat 0)\<lparr>Material := None\<rparr>]"
    by blast
  from t have rest: "calls (SetEntries \<lparr>Material = None\<rparr> (demoWorld (- 1)) [\<lparr>Material = Some 1\<rparr>]) =
      calls (demoWorld (- 1)) \<and>
    Entries (SetEntries \<lparr>Material = None\<rparr> (demoWorld (- 1)) [\<lparr>Material = Some 1\<rparr>]) =
      [\<lparr>Material = Some 1\<rparr>] \<and>
    calls (SetMaterial (demoWorld (- 1)) 0 None) = calls (demoWorld (- 1))"
    by blast
  have "calls w' = [] \<and>
      Entries w' = [\<lparr>Material = Some 2\<rparr>, \<lparr>Material = Some 1\<rparr>, \<lparr>Material = None\<rparr>]"
    using cv by (simp add: demoWorld_def)
  with run have ex: "\<exists>w'. CreateAndSetVirtualMaterialInstance (demoWorld (- 1)) 0 = Inr (Some 2, w') \<and>
      calls w' = [] \<and>
      Entries w' = [\<lparr>Material = Some 2\<rparr>, \<lparr>Material = Some 1\<rparr>, \<lparr>Material = None\<rparr>]"
    by blast
  from key sm rest ex show ?thesis
    by (simp add: demoWorld_def)
qed

text \<open>
  Claim C4. For an index in range, when the entry has no material, or its material's
  \<open>WaitForLoaded\<close> reports failure, \<open>CreateAndSetVirtualMaterialInstance\<close> returns null;
  the check's report apart, nothing changes: \<open>Entries\<close>, the key, the registry, the content
  store and the list of calls are as before.
\<close>

theorem CreateAndSetVirtualMaterialInstance_null_without_loaded_material:
  assumes "0 \<le> entryIndex" "entryIndex < Count (Entries w)"
    and "Material (Entries w ! nat entryIndex) = None \<or>
         (\<exists>a. Material (Entries w ! nat entryIndex) = Some a \<and>
              WaitForLoaded (content w) a = Inr True)"
  shows "\<exists>w'. CreateAndSetVirtualMaterialInstance w entryIndex = Inr (None, w') \<and>
     w' = w\<lparr>checkFailed := checkFailed w + 1\<rparr> \<and>
     Entries w' = Entries w \<and> sceneRenderingKey w' = sceneRenderingKey w \<and>
     scene w' = scene w \<and> content w' = content w \<and> calls w' = calls w"
  using CreateAndSet_check_fails [OF assms] by (simp add: CheckFailed_def)

theorem CreateAndSetVirtualMaterialInstance_null_without_loaded_material_witness:
  "(\<exists>w'. CreateAndSetVirtualMaterialInstance (demoWorld 0) 2 = Inr (None, w') \<and>
      Entries w' = Entries (demoWorld 0) \<and> calls w' = calls (demoWorld 0)) \<and>
   (\<exists>w'. CreateAndSetVirtualMaterialInstance (demoWorld 0) 1 = Inr (None, w') \<and>
      Entries w' = Entries (demoWorld 0) \<and> calls w' = calls (demoWorld 0))"
proof -
  have none: "Material (Entries (demoWorld 0) ! nat 2) = None \<or>
         (\<exists>a. Material (Entries (demoWorld 0) ! nat 2) = Some a \<and>
              WaitForLoaded (content (demoWorld 0)) a = Inr True)"
    by (simp add: demoWorld_def)
  have failed: "Material (Entries (demoWorld 0) ! nat 1) = None \<or>
         (\<exists>a. Material (Entries (demoWorld 0) ! nat 1) = Some a \<and>
              WaitForLoaded (content (demoWorld 0)) a = Inr True)"
    by (simp add: demoWorld_def demoContent_def WaitForLoaded_def)
  have r2: "(0::int) \<le> 2" "2 < Count (Entries (demoWorld 0))"
    and r1: "(0::int) \<le> 1" "1 < Count (Entries (demoWorld 0))"
    by (simp_all add: demoWorld_def Count_def)
  from CreateAndSetVirtualMaterialInstance_null_without_loaded_material [OF r2 none]
    CreateAndSetVirtualMaterialInstance_null_without_loaded_material [OF r1 failed]
  show ?thesis
    by blast
qed

text \<open>
  Claim C5. For an index in range whose entry has a material that loads,
  \<open>CreateAndSetVirtualMaterialInstance\<close> creates a new asset (an address the content store
  did not have) as an instance of that material, makes it the material of the entry and
  of no other entry, calls the registry's \<open>UpdateActor\<close> once if the actor is registered
  and not at all otherwise, and returns the new instance.
\<close>

theorem CreateAndSetVirtualMaterialInstance_creates_and_assigns:
  assumes "0 \<le> entryIndex" "entryIndex < Count (Entries w)"
    and "Material (Entries w ! nat entryIndex) = Some material"
    and "WaitForLoaded (content w) material = Inr False"
  shows "\<exists>result w'.
     CreateAndSetVirtualMaterialInstance w entryIndex = Inr (Some result, w') \<and>
     result = length (content w) \<and>
     content w' = content w @ [\<lparr>LoadFailed = False, BaseMaterial = Some material\<rparr>] \<and>
     BaseMaterial (content w' ! result) = Some material \<and>
     Entries w' = (Entries w)
       [nat entryIndex := (Entries w ! nat entryIndex)\<lparr>Material := Some result\<rparr>] \<and>
     Material (Entries w' ! nat entryIndex) = Some result \<and>
     sceneRenderingKey w' = sceneRenderingKey w \<and>
     calls w' = calls w @
       (if sceneRenderingKey w \<noteq> - 1 then [UpdateActorCall (sceneRenderingKey w)] else [])"
proof -
  have "nat entryIndex < length (Entries w)"
    using assms(1,2) by (simp add: Count_def)
  then show ?thesis
    using CreateAndSet_succeeds [OF assms] by (simp add: SceneUpdateActor_def)
qed

theorem CreateAndSetVirtualMaterialInstance_creates_and_assigns_witness:
  "\<exists>w'. CreateAndSetVirtualMaterialInstance (demoWorld 5) 0 = Inr (Some 2, w') \<and>
     Material (Entries w' ! 0) = Some 2 \<and>
     BaseMaterial (content w' ! 2) = Some 0 \<and>
     calls w' = [UpdateActorCall 5]"
proof -
  have r: "(0::int) \<le> 0" "0 < Count (Entries (demoWorld 5))"
    and m: "Material (Entries (demoWorld 5) ! nat 0) = Some 0"
    and l: "WaitForLoaded (content (demoWorld 5)) 0 = Inr False"
    by (simp_all add: demoWorld_def Count_def demoContent_def WaitForLoaded_def)
  from CreateAndSetVirtualMaterialInstance_creates_and_assigns [OF r m l]
  show ?thesis
    by (auto simp: demoWorld_def demoContent_def)
qed

lemma SetMaterial_same:
  "0 \<le> i \<Longrightarrow> i < Count (Entries w) \<Longrightarrow> Material (Entries w ! nat i) = m \<Longrightarrow>
   SetMaterial w i m = w"
  by (simp add: SetMaterial_def)

lemma Material_SetMaterial:
  assumes "0 \<le> i" "i < Count (Entries w)"
  shows "Material (Entries (SetMaterial w i m) ! nat i) = m"
    and "Count (Entries (SetMaterial w i m)) = Count (Entries w)"
  using assms by (simp_all add: SetMaterial_def SceneUpdateActor_def Count_def Let_def)

lemma calls_SetMaterial:
  "calls (SetMaterial w i m) =
     calls w @
     (if 0 \<le> i \<and> i < Count (Entries w) \<and> Material (Entries w ! nat i) \<noteq> m \<and>
         sceneRenderingKey w \<noteq> - 1
      then [UpdateActorCall (sceneRenderingKey w)] else [])"
  by (simp add: SetMaterial_def SceneUpdateActor_def CheckFailed_def Let_def)

text \<open>
  Claim C6. For an index in range, \<open>SetMaterial\<close> with the material the entry already has
  changes nothing at all and makes no call. So a second \<open>SetMaterial\<close> with the same
  arguments does nothing, and the two calls together make at most one registry update.
\<close>

theorem SetMaterial_same_material_is_noop:
  assumes "0 \<le> entryIndex" "entryIndex < Count (Entries w)"
  shows "(Material (Entries w ! nat entryIndex) = material \<longrightarrow>
            SetMaterial w entryIndex material = w) \<and>
     SetMaterial (SetMaterial w entryIndex material) entryIndex material =
       SetMaterial w entryIndex material \<and>
     (\<exists>new. calls (SetMaterial (SetMaterial w entryIndex material) entryIndex material) =
               calls w @ new \<and>
            length (filter isUpdateActor new) \<le> 1)"
proof -
  let ?w1 = "SetMaterial w entryIndex material"
  have first: "Material (Entries w ! nat entryIndex) = material \<longrightarrow> ?w1 = w"
    using assms by (simp add: SetMaterial_same)
  have "0 \<le> entryIndex" "entryIndex < Count (Entries ?w1)"
    "Material (Entries ?w1 ! nat entryIndex) = material"
    using assms by (simp_all add: Material_SetMaterial)
  then have second: "SetMaterial ?w1 entryIndex material = ?w1"
    by (rule SetMaterial_same)
  have "\<exists>new. calls ?w1 = calls w @ new \<and> length (filter isUpdateActor new) \<le> 1"
    by (simp add: calls_SetMaterial)
  with first second show ?thesis
    by simp
qed

theorem SetMaterial_same_material_is_noop_witness:
  "SetMaterial (demoWorld 0) 1 (Some 1) = demoWorld 0 \<and>
   calls (SetMaterial (demoWorld 0) 1 (Some 0)) = [UpdateActorCall 0] \<and>
   SetMaterial (SetMaterial (demoWorld 0) 1 (Some 0)) 1 (Some 0) =
     SetMaterial (demoWorld 0) 1 (Some 0)"
proof -
  have r: "(0::int) \<le> 1" "1 < Count (Entries (demoWorld 0))"
    by (simp_all add: demoWorld_def Count_def)
  have same: "Material (Entries (demoWorld 0) ! nat 1) = Some 1"
    by (simp add: demoWorld_def)
  from SetMaterial_same_material_is_noop [OF r, of "Some 1"] same
  have a: "SetMaterial (demoWorld 0) 1 (Some 1) = demoWorld 0"
    by blast
  from SetMaterial_same_material_is_noop [OF r, of "Some 0"]
  have b: "SetMaterial (SetMaterial (demoWorld 0) 1 (Some 0)) 1 (Some 0) =
     SetMaterial (demoWorld 0) 1 (Some 0)"
    by blast
  have c: "calls (SetMaterial (demoWorld 0) 1 (Some 0)) = [UpdateActorCall 0]"
    by (simp add: calls_SetMaterial demoWorld_def Count_def)
  from a b c show ?thesis
    by blast
qed

text \<open>
  Claim C7. From the unregistered state, \<open>OnEnable\<close> registers the actor (the key is no
  longer the sentinel) and \<open>OnDisable\<close> after it brings the key back to -1. The calls made
  by the pair are \<open>AddActor\<close>, the base enable, the base disable and \<open>RemoveActor\<close> with the
  key in use: one \<open>AddActor\<close> and one \<open>RemoveActor\<close>.
\<close>

theorem OnEnable_OnDisable_restores_sentinel:
  assumes "sceneRenderingKey w = - 1"
  shows "sceneRenderingKey (OnEnable w) \<noteq> - 1 \<and>
     sceneRenderingKey (OnDisable (OnEnable w)) = - 1 \<and>
     (\<exists>new. calls (OnDisable (OnEnable w)) = calls w @ new \<and>
        new = [AddActorCall (sceneRenderingKey (OnEnable w)), BaseOnEnableCall,
               BaseOnDisableCall, RemoveActorCall (sceneRenderingKey (OnEnable w))] \<and>
        length (filter isAddActor new) = 1 \<and>
        length (filter isRemoveActor new) = 1)"
  by (simp add: OnEnable_def OnDisable_def AddActor_def RemoveActor_def Actor_OnEnable_def
      Actor_OnDisable_def Let_def)

theorem OnEnable_OnDisable_restores_sentinel_witness:
  "sceneRenderingKey (demoWorld (- 1)) = - 1 \<and>
   sceneRenderingKey (OnEnable (demoWorld (- 1))) = 1 \<and>
   sceneRenderingKey (OnDisable (OnEnable (demoWorld (- 1)))) = - 1 \<and>
   calls (OnDisable (OnEnable (demoWorld (- 1)))) =
     [AddActorCall 1, BaseOnEnableCall, BaseOnDisableCall, RemoveActorCall 1]"
proof -
  have key: "sceneRenderingKey (demoWorld (- 1)) = - 1"
    by (simp add: demoWorld_def)
  have k1: "sceneRenderingKey (OnEnable (demoWorld (- 1))) = 1"
    by (simp add: demoWorld_def OnEnable_def AddActor_def Actor_OnEnable_def)
  from OnEnable_OnDisable_restores_sentinel [OF key] key k1 show ?thesis
    by (auto simp: demoWorld_def)
qed

text \<open>
  Claim C8. \<open>OnEnable\<close> calls the registry's \<open>AddActor\<close> and then the base
  \<open>Actor::OnEnable\<close>; \<open>OnDisable\<close> calls the base \<open>Actor::OnDisable\<close> and then the
  registry's \<open>RemoveActor\<close> (with the key the actor had). This holds in every state.
\<close>

theorem OnEnable_OnDisable_call_order:
  "(\<exists>key. calls (OnEnable w) = calls w @ [AddActorCall key, BaseOnEnableCall]) \<and>
   calls (OnDisable w) = calls w @ [BaseOnDisableCall, RemoveActorCall (sceneRenderingKey w)]"
  by (simp add: OnEnable_def OnDisable_def AddActor_def RemoveActor_def Actor_OnEnable_def
      Actor_OnDisable_def Let_def)

theorem OnEnable_OnDisable_call_order_witness:
  "calls (OnEnable (demoWorld (- 1))) = [AddActorCall 1, BaseOnEnableCall] \<and>
   calls (OnDisable (demoWorld 7)) = [BaseOnDisableCall, RemoveActorCall 7]"
proof -
  have k1: "sceneRenderingKey (OnEnable (demoWorld (- 1))) = 1"
    by (simp add: demoWorld_def OnEnable_def AddActor_def Actor_OnEnable_def)
  have en: "calls (OnEnable (demoWorld (- 1))) = [AddActorCall 1, BaseOnEnableCall]"
    by (simp add: demoWorld_def OnEnable_def AddActor_def Actor_OnEnable_def)
  from OnEnable_OnDisable_call_order [of "demoWorld 7"]
  have "calls (OnDisable (demoWorld 7)) = [BaseOnDisableCall, RemoveActorCall 7]"
    by (simp add: demoWorld_def)
  with en show ?thesis
    by simp
qed

text \<open>
  Claim C9. \<open>OnLayerChanged\<close> leaves \<open>Entries\<close> and the key (and the content store) as they
  are; it makes one call of the registry's \<open>UpdateActor\<close> when the actor is registered and
  no call when it is not, so the number of updates is one exactly for a registered actor.
\<close>

theorem OnLayerChanged_updates_iff_registered:
  "Entries (OnLayerChanged w) = Entries w \<and>
   sceneRenderingKey (OnLayerChanged w) = sceneRenderingKey w \<and>
   content (OnLayerChanged w) = content w \<and>
   checkFailed (OnLayerChanged w) = checkFailed w \<and>
   (\<exists>new. calls (OnLayerChanged w) = calls w @ new \<and>
      new = (if sceneRenderingKey w \<noteq> - 1 then [UpdateActorCall (sceneRenderingKey w)] else []) \<and>
      (length (filter isUpdateActor new) = 1) = (sceneRenderingKey w \<noteq> - 1) \<and>
      length new = length (filter isUpdateActor new))"
  by (simp add: OnLayerChanged_def SceneUpdateActor_def)

theorem OnLayerChanged_updates_iff_registered_witness:
  "calls (OnLayerChanged (demoWorld 4)) = [UpdateActorCall 4] \<and>
   Entries (OnLayerChanged (demoWorld 4)) = Entries (demoWorld 4) \<and>
   calls (OnLayerChanged (demoWorld (- 1))) = []"
  using OnLayerChanged_updates_iff_registered [of "demoWorld 4"]
    OnLayerChanged_updates_iff_registered [of "demoWorld (- 1)"]
  by (simp add: demoWorld_def)

text \<open>
  Claim C10. For a registered actor, \<open>SetEntries\<close> with a strict prefix of \<open>Entries\<close>
  shrinks \<open>Entries\<close> to the prefix and makes no registry call; the same holds for
  \<open>Entries\<close> followed by any number of default-constructed entries: the comparison runs
  over the indices of the new list after the resize, and sees no difference.
\<close>

theorem SetEntries_length_change_not_detected:
  assumes "sceneRenderingKey w \<noteq> - 1"
  shows "(Entries w = v @ rest \<and> rest \<noteq> [] \<longrightarrow>
            Entries (SetEntries dflt w v) = v \<and> calls (SetEntries dflt w v) = calls w \<and>
            SetEntries dflt w v = w\<lparr>Entries := v\<rparr>) \<and>
     Entries (SetEntries dflt w (Entries w @ replicate n dflt)) = Entries w @ replicate n dflt \<and>
     calls (SetEntries dflt w (Entries w @ replicate n dflt)) = calls w \<and>
     SetEntries dflt w (Entries w @ replicate n dflt) =
       w\<lparr>Entries := Entries w @ replicate n dflt\<rparr>"
proof -
  have shrink: "SetEntries dflt w v = w\<lparr>Entries := v\<rparr>" if "Entries w = v @ rest"
    using that by (simp add: SetEntries_eq Resize_prefix)
  have "Resize dflt (Entries w) (length (Entries w) + n) = Entries w @ replicate n dflt"
    by (rule Resize_grow)
  then have grow: "SetEntries dflt w (Entries w @ replicate n dflt) =
      w\<lparr>Entries := Entries w @ replicate n dflt\<rparr>"
    by (simp add: SetEntries_eq)
  show ?thesis
    using shrink by (simp add: grow)
qed

theorem SetEntries_length_change_not_detected_witness:
  "sceneRenderingKey (demoWorld 0) \<noteq> - 1 \<and>
   Entries (SetEntries \<lparr>Material = None\<rparr> (demoWorld 0) [\<lparr>Material = Some 0\<rparr>]) =
     [\<lparr>Material = Some 0\<rparr>] \<and>
   calls (SetEntries \<lparr>Material = None\<rparr> (demoWorld 0) [\<lparr>Material = Some 0\<rparr>]) = [] \<and>
   calls (SetEntries \<lparr>Material = None\<rparr> (demoWorld 0)
     [\<lparr>Material = Some 0\<rparr>, \<lparr>Material = Some 1\<rparr>, \<lparr>Material = None\<rparr>,
      \<lparr>Material = None\<rparr>, \<lparr>Material = None\<rparr>]) = []"
proof -
  have key: "sceneRenderingKey (demoWorld 0) \<noteq> - 1"
    by (simp add: demoWorld_def)
  have pre: "Entries (demoWorld 0) =
      [\<lparr>Material = Some 0\<rparr>] @ [\<lparr>Material = Some 1\<rparr>, \<lparr>Material = None\<rparr>] \<and>
      [\<lparr>Material = Some (1::nat)\<rparr>, \<lparr>Material = None\<rparr>] \<noteq> []"
    by (simp add: demoWorld_def)
  note t = SetEntries_length_change_not_detected
    [OF key, of "[\<lparr>Material = Some 0\<rparr>]" "[\<lparr>Material = Some 1\<rparr>, \<lparr>Material = None\<rparr>]"
       "\<lparr>Material = None\<rparr>" 2]
  from t pre have a: "Entries (SetEntries \<lparr>Material = None\<rparr> (demoWorld 0) [\<lparr>Material = Some 0\<rparr>]) =
     [\<lparr>Material = Some 0\<rparr>] \<and>
   calls (SetEntries \<lparr>Material = None\<rparr> (demoWorld 0) [\<lparr>Material = Some 0\<rparr>]) =
     calls (demoWorld 0)"
    by blast
  from t have b: "calls (SetEntries \<lparr>Material = None\<rparr> (demoWorld 0)
      (Entries (demoWorld 0) @ replicate 2 \<lparr>Material = None\<rparr>)) = calls (demoWorld 0)"
    by blast
  have two: "replicate 2 \<lparr>Material = (None::nat option)\<rparr> = [\<lparr>Material = None\<rparr>, \<lparr>Material = None\<rparr>]"
    by (simp add: numeral_2_eq_2)
  from key a b show ?thesis
    by (simp add: demoWorld_def two)
qed

end
